theory Spec2Isabelle
  imports Main
begin

section \<open>Data model of the scheduler (js/scheduler.js, js/spotify-api.js)\<close>

text \<open>
  A schedule object as \<open>addSchedule\<close> builds it and \<open>localStorage\<close> keeps it. JavaScript
  numbers that the application only ever produces with \<open>parseInt\<close> and \<open>Math.floor\<close> are
  integers; \<open>null\<close> and \<open>undefined\<close> are \<open>None\<close>. The field \<open>id\<close> is called \<open>sid\<close> here,
  since \<open>id\<close> is the identity function of HOL.
\<close>

record schedule =
  sid :: string
  time :: string
  trackUri :: string
  trackName :: string
  artistName :: string
  volume :: int
  restorePlayback :: bool
  repeat :: bool
  triggered :: bool
  enabled :: bool
  playbackDuration :: "int option"
  trackDuration :: "int option"
  lastTriggeredDate :: "string option"

text \<open>The argument object of \<open>addSchedule\<close>: every field but the time and the track may be absent.\<close>

record schedule_fields =
  f_time :: string
  f_trackUri :: string
  f_trackName :: "string option"
  f_artistName :: "string option"
  f_volume :: "int option"
  f_restorePlayback :: "bool option"
  f_repeat :: "bool option"
  f_playbackDuration :: "int option"
  f_trackDuration :: "int option"

text \<open>The playback state object of the remote player, with the fields the scheduler reads.\<close>

record track_item =
  uri :: string
  duration_ms :: int

datatype js_number = Undefined | Null | Num int

record playback_state =
  is_playing :: bool
  item :: "track_item option"
  progress_ms :: "int option"
  context_uri :: "string option"
  device_volume_percent :: js_number

text \<open>What is kept under the key \<open>spotify_schedules\<close>: nothing, text that does not parse to
  a list of schedules, or the serialised list.\<close>

datatype storage_item = NoItem | Corrupt | Saved "schedule list"

record scheduler_state =
  schedules :: "schedule list"
  storage :: storage_item
  previousPlaybackState :: "playback_state option"
  activeSchedule :: "schedule option"
  activeScheduleStartTime :: "nat option"

text \<open>The wall clock as \<open>checkSchedules\<close> reads it.\<close>

record clock =
  hours :: nat
  minutes :: nat
  seconds :: nat

section \<open>The remote API (js/spotify-api.js)\<close>

text \<open>An awaited call either throws an error with a message or returns.\<close>

datatype 'a outcome = Threw string | Returned 'a

record play_options =
  contextUri :: "string option"
  uris :: "string list option"
  positionMs :: "int option"

record play_body =
  body_context_uri :: "string option"
  body_uris :: "string list option"
  body_position_ms :: "int option"

datatype request =
    GetPlayer
  | PutPause
  | PutVolume int
  | PutPlay play_body

datatype event =
    Api request
  | Toast string bool
  | ConsoleLog string
  | ConsoleError string
  | Delay nat

definition truthy_str :: "string option \<Rightarrow> bool" where
  "truthy_str v = (case v of None \<Rightarrow> False | Some s \<Rightarrow> s \<noteq> [])"

definition truthy_num :: "int option \<Rightarrow> bool" where
  "truthy_num v = (case v of None \<Rightarrow> False | Some n \<Rightarrow> n \<noteq> 0)"

text \<open>\<open>getPlaybackState\<close> turns every error of the request into \<open>null\<close>; a 204 answer is
  \<open>null\<close> already.\<close>

definition getPlaybackState :: "playback_state option outcome \<Rightarrow> playback_state option" where
  "getPlaybackState r = (case r of Threw m \<Rightarrow> None | Returned x \<Rightarrow> x)"

text \<open>\<open>play\<close> builds the request body from its options (no scheduler call passes a
  \<open>deviceId\<close>, so the query string is always empty).\<close>

definition play :: "play_options \<Rightarrow> request" where
  "play options = PutPlay
     \<lparr> body_context_uri = (if truthy_str (contextUri options) then contextUri options else None),
       body_uris = uris options,
       body_position_ms = positionMs options \<rparr>"

definition pause :: request where
  "pause = PutPause"

definition setVolume :: "int \<Rightarrow> request" where
  "setVolume volumePercent = PutVolume (min 100 (max 0 volumePercent))"

section \<open>The store (js/scheduler.js)\<close>

definition digit_char :: "nat \<Rightarrow> char" where
  "digit_char d = ''0123456789'' ! d"

fun toString :: "nat \<Rightarrow> string" where
  "toString n = (if n < 10 then [digit_char n] else toString (n div 10) @ [digit_char (n mod 10)])"

declare toString.simps [simp del]

definition padStart2 :: "string \<Rightarrow> string" where
  "padStart2 s = replicate (2 - length s) (CHR ''0'') @ s"

definition or_str :: "string option \<Rightarrow> string \<Rightarrow> string" where
  "or_str v d = (if truthy_str v then the v else d)"

definition or_num :: "int option \<Rightarrow> int \<Rightarrow> int" where
  "or_num v d = (if truthy_num v then the v else d)"

definition or_null :: "int option \<Rightarrow> int option" where
  "or_null v = (if truthy_num v then v else None)"

definition or_false :: "bool option \<Rightarrow> bool" where
  "or_false v = (case v of None \<Rightarrow> False | Some b \<Rightarrow> b)"

definition saveSchedules :: "scheduler_state \<Rightarrow> scheduler_state" where
  "saveSchedules s = s\<lparr>storage := Saved (schedules s)\<rparr>"

definition reset_if_new_day :: "string \<Rightarrow> schedule \<Rightarrow> schedule" where
  "reset_if_new_day today x =
     (if repeat x then (if lastTriggeredDate x \<noteq> Some today then x\<lparr>triggered := False\<rparr> else x)
      else x)"

definition loadSchedules :: "string \<Rightarrow> scheduler_state \<Rightarrow> scheduler_state" where
  "loadSchedules today s =
     (case storage s of
        NoItem \<Rightarrow> s
      | Corrupt \<Rightarrow> s\<lparr>schedules := []\<rparr>
      | Saved stored \<Rightarrow>
          saveSchedules
            (s\<lparr>schedules :=
                 map (reset_if_new_day today) (filter (\<lambda>x. \<not> triggered x \<or> repeat x) stored)\<rparr>))"

definition new_schedule :: "nat \<Rightarrow> schedule_fields \<Rightarrow> schedule" where
  "new_schedule now_ms f =
     \<lparr> sid = toString now_ms,
       time = f_time f,
       trackUri = f_trackUri f,
       trackName = or_str (f_trackName f) ''Unknown Track'',
       artistName = or_str (f_artistName f) ''Unknown Artist'',
       volume = or_num (f_volume f) 50,
       restorePlayback = or_false (f_restorePlayback f),
       repeat = (f_repeat f \<noteq> Some False),
       triggered = False,
       enabled = True,
       playbackDuration = or_null (f_playbackDuration f),
       trackDuration = or_null (f_trackDuration f),
       lastTriggeredDate = None \<rparr>"

definition addSchedule :: "nat \<Rightarrow> schedule_fields \<Rightarrow> scheduler_state \<Rightarrow> schedule \<times> scheduler_state" where
  "addSchedule now_ms f s =
     (let newSchedule = new_schedule now_ms f
      in (newSchedule, saveSchedules (s\<lparr>schedules := schedules s @ [newSchedule]\<rparr>)))"

definition removeSchedule :: "string \<Rightarrow> scheduler_state \<Rightarrow> scheduler_state" where
  "removeSchedule scheduleId s =
     saveSchedules (s\<lparr>schedules := filter (\<lambda>x. sid x \<noteq> scheduleId) (schedules s)\<rparr>)"

fun findIndex :: "('a \<Rightarrow> bool) \<Rightarrow> 'a list \<Rightarrow> nat option" where
  "findIndex P [] = None"
| "findIndex P (x # xs) = (if P x then Some 0 else map_option Suc (findIndex P xs))"

definition toggleSchedule :: "string \<Rightarrow> scheduler_state \<Rightarrow> scheduler_state" where
  "toggleSchedule scheduleId s =
     (case findIndex (\<lambda>x. sid x = scheduleId) (schedules s) of
        None \<Rightarrow> s
      | Some i \<Rightarrow>
          saveSchedules
            (s\<lparr>schedules := (schedules s)[i := (schedules s ! i)\<lparr>enabled := \<not> enabled (schedules s ! i)\<rparr>]\<rparr>))"

definition getSchedules :: "scheduler_state \<Rightarrow> schedule list" where
  "getSchedules s = schedules s"

definition resetDailySchedules :: "scheduler_state \<Rightarrow> scheduler_state" where
  "resetDailySchedules s =
     saveSchedules
       (s\<lparr>schedules := map (\<lambda>x. if repeat x then x\<lparr>triggered := False\<rparr> else x) (schedules s)\<rparr>)"

section \<open>Firing a schedule (js/scheduler.js)\<close>

text \<open>
  What the outside world answers during one call of \<open>triggerSchedule\<close>: the outcome of each
  remote request, the calendar date (\<open>new Date().toDateString()\<close>) and \<open>Date.now()\<close>.
\<close>

record fire_env =
  env_state :: "playback_state option outcome"
  env_pause :: "unit outcome"
  env_volume :: "unit outcome"
  env_play :: "unit outcome"
  env_today :: string
  env_now_ms :: nat

text \<open>The monitor that \<open>triggerSchedule\<close> starts, with the arguments it passes.\<close>

datatype monitor =
    MonitorPlaybackDuration schedule "playback_state option"
  | MonitorTrackEnd schedule playback_state
  | MonitorForCompletion schedule

definition duration_capped :: "schedule \<Rightarrow> bool" where
  "duration_capped x =
     (truthy_num (playbackDuration x) \<and> truthy_num (trackDuration x)
      \<and> the (playbackDuration x) < the (trackDuration x))"

definition select_monitor :: "schedule \<Rightarrow> playback_state option \<Rightarrow> monitor" where
  "select_monitor x savedPlaybackState =
     (if duration_capped x then MonitorPlaybackDuration x savedPlaybackState
      else if restorePlayback x \<and> savedPlaybackState \<noteq> None
        then MonitorTrackEnd x (the savedPlaybackState)
      else MonitorForCompletion x)"

text \<open>The \<open>catch\<close> block of \<open>triggerSchedule\<close>.\<close>

definition trigger_failed ::
  "string \<Rightarrow> scheduler_state \<Rightarrow> event list \<Rightarrow> scheduler_state \<times> event list \<times> monitor option" where
  "trigger_failed message s evs =
     (s\<lparr>activeSchedule := None, activeScheduleStartTime := None\<rparr>,
      evs @ [ConsoleError ''Error triggering schedule:'', Toast (''Error: '' @ message) True],
      None)"

text \<open>
  \<open>triggerSchedule\<close> receives a schedule object of the list; the model names it by its
  index \<open>i\<close>, and the assignments to its fields update the list at \<open>i\<close>. Its two callers
  pass an index of the list: \<open>checkSchedules\<close> runs over the list and \<open>triggerNow\<close> finds
  the object in it. The result is the new state, what was issued and shown, in order, and
  the monitor that was started. The state request cannot throw (\<open>getPlaybackState\<close>
  catches), an error of the pause is caught and ignored, so the outcome \<open>env_pause\<close> is
  not looked at; an error of the volume or of the play request goes to the \<open>catch\<close> block.
  \<open>activeSchedule\<close> refers to the schedule object; the model keeps the value the object
  has at that moment. Writing to \<open>localStorage\<close> is taken to succeed.
\<close>

definition triggerSchedule ::
  "nat \<Rightarrow> fire_env \<Rightarrow> scheduler_state \<Rightarrow> scheduler_state \<times> event list \<times> monitor option" where
  "triggerSchedule i env s =
     (let x = schedules s ! i;
          savedPlaybackState =
            (if restorePlayback x then getPlaybackState (env_state env) else None);
          s1 = (if restorePlayback x then s\<lparr>previousPlaybackState := savedPlaybackState\<rparr> else s);
          ev1 = [ConsoleLog (''Triggering schedule: '' @ trackName x @ '' at '' @ time x)]
                @ (if restorePlayback x then [Api GetPlayer] else [])
                @ [Api pause, Delay 500, Api (setVolume (volume x))]
      in case env_volume env of
           Threw message \<Rightarrow> trigger_failed message s1 ev1
         | Returned u \<Rightarrow>
             (let ev2 = ev1 @ [Api (play \<lparr>contextUri = None, uris = Some [trackUri x],
                                          positionMs = None\<rparr>)]
              in case env_play env of
                   Threw message \<Rightarrow> trigger_failed message s1 ev2
                 | Returned v \<Rightarrow>
                     (let x' = x\<lparr>triggered := True, lastTriggeredDate := Some (env_today env)\<rparr>;
                          s2 = saveSchedules (s1\<lparr>schedules := (schedules s1)[i := x']\<rparr>);
                          s3 = s2\<lparr>activeSchedule := Some x',
                                  activeScheduleStartTime := Some (env_now_ms env)\<rparr>
                      in (s3, ev2 @ [Toast (''Now playing: '' @ trackName x') False],
                          Some (select_monitor x' savedPlaybackState)))))"

section \<open>The clock tick (js/scheduler.js)\<close>

definition currentTime :: "clock \<Rightarrow> string" where
  "currentTime now = padStart2 (toString (hours now)) @ '':'' @ padStart2 (toString (minutes now))"

text \<open>The condition of the \<open>if\<close> in the loop of \<open>checkSchedules\<close>.\<close>

definition due :: "clock \<Rightarrow> schedule \<Rightarrow> bool" where
  "due now x = (enabled x \<and> \<not> triggered x \<and> time x = currentTime now \<and> seconds now < 2)"

text \<open>
  One tick: the clock is read once, then the loop runs over the list in order and awaits
  each fire before it goes on; \<open>envs i\<close> is what the world answers while the schedule at
  index \<open>i\<close> fires. The result carries, besides state and events, the indices of the
  schedules that \<open>triggerSchedule\<close> was called for, with the monitor each one started.
  The model runs one tick after the other: a tick that begins while the fires of the
  previous one are still awaited is outside it.
\<close>

record tick_result =
  tick_state :: scheduler_state
  tick_events :: "event list"
  tick_fired :: "(nat \<times> monitor option) list"

definition check_one :: "clock \<Rightarrow> (nat \<Rightarrow> fire_env) \<Rightarrow> tick_result \<Rightarrow> nat \<Rightarrow> tick_result" where
  "check_one now envs r i =
     (if due now (schedules (tick_state r) ! i) then
        (case triggerSchedule i (envs i) (tick_state r) of
           (s', evs, m) \<Rightarrow>
             \<lparr> tick_state = s', tick_events = tick_events r @ evs,
               tick_fired = tick_fired r @ [(i, m)] \<rparr>)
      else r)"

definition checkSchedules :: "clock \<Rightarrow> (nat \<Rightarrow> fire_env) \<Rightarrow> scheduler_state \<Rightarrow> tick_result" where
  "checkSchedules now envs s =
     foldl (check_one now envs)
       \<lparr> tick_state = s, tick_events = [], tick_fired = [] \<rparr>
       [0 ..< length (schedules s)]"

definition triggerNow ::
  "string \<Rightarrow> fire_env \<Rightarrow> scheduler_state \<Rightarrow> scheduler_state \<times> event list \<times> monitor option" where
  "triggerNow scheduleId env s =
     (case findIndex (\<lambda>x. sid x = scheduleId) (schedules s) of
        None \<Rightarrow> (s, [], None)
      | Some i \<Rightarrow>
          triggerSchedule i env
            (s\<lparr>schedules := (schedules s)[i := (schedules s ! i)\<lparr>triggered := False\<rparr>]\<rparr>))"

text \<open>
  \<open>startChecking\<close> sets the interval that runs \<open>checkSchedules\<close>; the list holds, for the
  successive ticks, the reading of the clock and the answers of the world. \<open>init\<close> loads
  the store and starts the interval. The ticks are run one after the other, each with its
  fires completed; in the browser the interval starts the next tick after one second even
  if a fire of the previous tick is still awaited, and such overlapping ticks are not
  modelled here.
\<close>

definition startChecking ::
  "(clock \<times> (nat \<Rightarrow> fire_env)) list \<Rightarrow> scheduler_state \<Rightarrow> scheduler_state" where
  "startChecking ticks s =
     foldl (\<lambda>s' tick. tick_state (checkSchedules (fst tick) (snd tick) s')) s ticks"

definition init :: "string \<Rightarrow> (clock \<times> (nat \<Rightarrow> fire_env)) list \<Rightarrow> scheduler_state \<Rightarrow> scheduler_state" where
  "init today ticks s = startChecking ticks (loadSchedules today s)"

section \<open>Restoring the previous playback (js/scheduler.js)\<close>

text \<open>
  \<open>restorePreviousPlayback\<close> catches its own errors, so it always returns; the model gives
  what it issued and showed. \<open>vol_r\<close> and \<open>play_r\<close> are the outcomes of its two requests.
  A volume of \<open>null\<close> in the snapshot is not \<open>undefined\<close>, so it is sent, and
  \<open>Math.max(0, null)\<close> is 0.
\<close>

definition restore_failed :: "event list" where
  "restore_failed =
     [ConsoleError ''Error restoring playback:'', Toast ''Could not restore previous playback'' True]"

definition restore_play :: "playback_state \<Rightarrow> request option" where
  "restore_play prevState =
     (if truthy_str (context_uri prevState) then
        Some (play \<lparr>contextUri = context_uri prevState, uris = None,
                    positionMs = Some (or_num (progress_ms prevState) 0)\<rparr>)
      else if truthy_str (map_option uri (item prevState)) then
        Some (play \<lparr>contextUri = None, uris = Some [uri (the (item prevState))],
                    positionMs = Some (or_num (progress_ms prevState) 0)\<rparr>)
      else None)"

definition restore_volume :: "playback_state \<Rightarrow> request option" where
  "restore_volume prevState =
     (case device_volume_percent prevState of
        Undefined \<Rightarrow> None
      | Null \<Rightarrow> Some (setVolume 0)
      | Num n \<Rightarrow> Some (setVolume n))"

definition restorePreviousPlayback ::
  "playback_state \<Rightarrow> unit outcome \<Rightarrow> unit outcome \<Rightarrow> event list" where
  "restorePreviousPlayback prevState vol_r play_r =
     (let ev0 = [ConsoleLog ''Restoring previous playback...'', Delay 1000];
          ev1 = ev0 @ (case restore_volume prevState of None \<Rightarrow> [] | Some q \<Rightarrow> [Api q])
      in case (restore_volume prevState, vol_r) of
           (Some q, Threw message) \<Rightarrow> ev1 @ restore_failed
         | _ \<Rightarrow>
             (case restore_play prevState of
                None \<Rightarrow> ev1 @ [Toast ''Restored previous playback'' False]
              | Some q \<Rightarrow>
                  (case play_r of
                     Threw message \<Rightarrow> ev1 @ [Api q] @ restore_failed
                   | Returned u \<Rightarrow> ev1 @ [Api q, Toast ''Restored previous playback'' False])))"

section \<open>The monitors (js/scheduler.js)\<close>














text \<open>The remote requests among the events, in order.\<close>

fun requests :: "event list \<Rightarrow> request list" where
  "requests [] = []"
| "requests (Api q # evs) = q # requests evs"
| "requests (ev # evs) = requests evs"

text \<open>The play requests among the events, in order.\<close>

fun play_requests :: "event list \<Rightarrow> play_body list" where
  "play_requests [] = []"
| "play_requests (Api (PutPlay b) # evs) = b # play_requests evs"
| "play_requests (ev # evs) = play_requests evs"

text \<open>The invariant of the data model: every volume of the list is within 0 and 100.\<close>

definition volumes_in_range :: "schedule list \<Rightarrow> bool" where
  "volumes_in_range xs = list_all (\<lambda>x. 0 \<le> volume x \<and> volume x \<le> 100) xs"


section \<open>Example inputs\<close>

definition wake_up :: schedule where
  "wake_up =
     \<lparr> sid = ''1762150000000'', time = ''07:00'', trackUri = ''spotify:track:T1'',
       trackName = ''Morning'', artistName = ''Band'', volume = 80, restorePlayback = True,
       repeat = True, triggered = False, enabled = True, playbackDuration = Some 30,
       trackDuration = Some 180, lastTriggeredDate = None \<rparr>"

definition store_of :: "schedule list \<Rightarrow> scheduler_state" where
  "store_of xs =
     \<lparr> schedules = xs, storage = Saved xs, previousPlaybackState = None,
       activeSchedule = None, activeScheduleStartTime = None \<rparr>"

definition playing :: "string \<Rightarrow> playback_state" where
  "playing u =
     \<lparr> is_playing = True, item = Some \<lparr>uri = u, duration_ms = 180000\<rparr>,
       progress_ms = Some 5000, context_uri = Some ''spotify:playlist:P1'',
       device_volume_percent = Num 40 \<rparr>"

definition all_fine :: fire_env where
  "all_fine =
     \<lparr> env_state = Returned (Some (playing ''spotify:track:T0'')), env_pause = Returned (),
       env_volume = Returned (), env_play = Returned (),
       env_today = ''Tue Nov 03 2026'', env_now_ms = 1762153200000 \<rparr>"

definition no_device :: fire_env where
  "no_device = all_fine\<lparr>env_state := Returned None\<rparr>"

definition volume_fails :: fire_env where
  "volume_fails = all_fine\<lparr>env_volume := Threw ''Player command failed: No active device found''\<rparr>"

definition full_track :: schedule where
  "full_track = wake_up\<lparr>playbackDuration := None\<rparr>"

definition fired_yesterday :: schedule where
  "fired_yesterday = wake_up\<lparr>triggered := True, lastTriggeredDate := Some ''Mon Nov 02 2026''\<rparr>"

definition monday_seven :: "clock \<times> (nat \<Rightarrow> fire_env)" where
  "monday_seven =
     (\<lparr>hours = 7, minutes = 0, seconds = 0\<rparr>, \<lambda>i. all_fine\<lparr>env_today := ''Mon Nov 02 2026''\<rparr>)"

definition track_only :: playback_state where
  "track_only = (playing ''spotify:track:T0'')\<lparr>context_uri := None, device_volume_percent := Undefined\<rparr>"

definition idle_player :: playback_state where
  "idle_player = (playing ''spotify:track:T0'')\<lparr>context_uri := None, item := None\<rparr>"

definition only_required :: schedule_fields where
  "only_required =
     \<lparr> f_time = ''07:00'', f_trackUri = ''spotify:track:T1'', f_trackName = None,
       f_artistName = None, f_volume = None, f_restorePlayback = None, f_repeat = None,
       f_playbackDuration = None, f_trackDuration = None \<rparr>"

definition from_form :: schedule_fields where
  "from_form =
     \<lparr> f_time = ''07:00'', f_trackUri = ''spotify:track:T1'', f_trackName = Some ''Morning'',
       f_artistName = Some ''Band'', f_volume = Some 80, f_restorePlayback = Some True,
       f_repeat = None, f_playbackDuration = Some 0, f_trackDuration = Some 180 \<rparr>"

definition too_loud :: schedule_fields where
  "too_loud = only_required\<lparr>f_volume := Some 150\<rparr>"

definition muted :: schedule_fields where
  "muted = only_required\<lparr>f_volume := Some 0\<rparr>"






definition tuesday_seven :: "clock \<times> (nat \<Rightarrow> fire_env)" where
  "tuesday_seven = (\<lparr>hours = 7, minutes = 0, seconds = 0\<rparr>, \<lambda>i. all_fine)"



section \<open>The clock tick fires exactly the due schedules\<close>

lemma requests_append: "requests (xs @ ys) = requests xs @ requests ys"
  by (induction xs rule: requests.induct) simp_all


lemma triggerSchedule_other:
  "j \<noteq> i \<Longrightarrow> schedules (fst (triggerSchedule i env s)) ! j = schedules s ! j"
  by (simp add: triggerSchedule_def trigger_failed_def saveSchedules_def Let_def
      split: outcome.splits)

lemma check_one_other:
  "j \<noteq> i \<Longrightarrow> schedules (tick_state (check_one now envs r i)) ! j = schedules (tick_state r) ! j"
  using triggerSchedule_other [of j i "envs i" "tick_state r"]
  by (auto simp add: check_one_def split: prod.splits)






lemma check_one_fired:
  "map fst (tick_fired (check_one now envs r i)) =
     map fst (tick_fired r) @ (if due now (schedules (tick_state r) ! i) then [i] else [])"
  by (simp add: check_one_def split: prod.splits)

text \<open>Firing one schedule leaves the others as they were, so the loop decides for each
  schedule on its fields as they were when the tick began.\<close>

lemma foldl_check_one_fired:
  "distinct js \<Longrightarrow>
   map fst (tick_fired (foldl (check_one now envs) r js)) =
     map fst (tick_fired r) @ filter (\<lambda>j. due now (schedules (tick_state r) ! j)) js"
proof (induction js arbitrary: r)
  case Nil
  then show ?case by simp
next
  case (Cons j js)
  have same: "\<And>k. k \<in> set js \<Longrightarrow>
      schedules (tick_state (check_one now envs r j)) ! k = schedules (tick_state r) ! k"
    using Cons.prems by (intro check_one_other) auto
  have "filter (\<lambda>k. due now (schedules (tick_state (check_one now envs r j)) ! k)) js
        = filter (\<lambda>k. due now (schedules (tick_state r) ! k)) js"
    by (rule filter_cong) (simp_all add: same)
  with Cons show ?case
    by (simp add: check_one_fired)
qed




lemma checkSchedules_fired:
  "map fst (tick_fired (checkSchedules now envs s)) =
     filter (\<lambda>j. due now (schedules s ! j)) [0 ..< length (schedules s)]"
  by (simp add: checkSchedules_def foldl_check_one_fired)

lemma checkSchedules_fired_set:
  "fst ` set (tick_fired (checkSchedules now envs s))
     = {j. j < length (schedules s) \<and> due now (schedules s ! j)}"
proof -
  have "fst ` set (tick_fired (checkSchedules now envs s))
        = set (map fst (tick_fired (checkSchedules now envs s)))" by simp
  also have "\<dots> = {j. j < length (schedules s) \<and> due now (schedules s ! j)}"
    by (auto simp add: checkSchedules_fired)
  finally show ?thesis .
qed

lemma currentTime_seven: "currentTime \<lparr>hours = 7, minutes = 0, seconds = sec\<rparr> = ''07:00''"
  by (simp add: currentTime_def padStart2_def toString.simps digit_char_def)



section \<open>A failed fire\<close>

text \<open>
  C2. If the volume or the play request of a fire throws, the schedule's \<open>triggered\<close> flag
  and \<open>lastTriggeredDate\<close> are as before, the active schedule and its start time are
  cleared, an error toast is shown, the list of schedules and what \<open>localStorage\<close> holds
  are unchanged, and no monitor is started.
\<close>

theorem triggerSchedule_failure_keeps_store:
  "(\<exists>m. env_volume env = Threw m) \<or> (\<exists>m. env_play env = Threw m) \<Longrightarrow>
     (case triggerSchedule i env s of (s', evs, started) \<Rightarrow>
        triggered (schedules s' ! i) = triggered (schedules s ! i)
        \<and> lastTriggeredDate (schedules s' ! i) = lastTriggeredDate (schedules s ! i)
        \<and> activeSchedule s' = None \<and> activeScheduleStartTime s' = None
        \<and> (\<exists>m. Toast (''Error: '' @ m) True \<in> set evs)
        \<and> schedules s' = schedules s \<and> storage s' = storage s
        \<and> started = None)"
  by (auto simp add: triggerSchedule_def trigger_failed_def Let_def split: outcome.splits)

theorem triggerSchedule_failure_keeps_store_witness:
  "((\<exists>m. env_volume volume_fails = Threw m) \<or> (\<exists>m. env_play volume_fails = Threw m))
   \<and> schedules (fst (triggerSchedule 0 volume_fails (store_of [wake_up]))) = [wake_up]
   \<and> activeSchedule (fst (triggerSchedule 0 volume_fails (store_of [wake_up]))) = None"
  using triggerSchedule_failure_keeps_store [of volume_fails 0 "store_of [wake_up]"]
  by (auto simp add: volume_fails_def all_fine_def store_of_def split: prod.splits)

section \<open>The monitor a successful fire starts\<close>

text \<open>
  C3, as the code has it. After a fire whose volume and play requests succeed, exactly one
  monitor is started: the duration-capped one if and only if \<open>playbackDuration\<close> and
  \<open>trackDuration\<close> are both set (a number other than 0) and the former is below the latter;
  the natural-end one if and only if no cap applies, \<open>restorePlayback\<close> is set and the
  snapshot taken at the fire is not \<open>null\<close>; the fire-and-forget one otherwise.
\<close>

theorem triggerSchedule_selects_monitor:
  "env_volume env = Returned u \<Longrightarrow> env_play env = Returned v \<Longrightarrow>
     (\<exists>m. snd (snd (triggerSchedule i env s)) = Some m
        \<and> ((\<exists>a b. m = MonitorPlaybackDuration a b) \<longleftrightarrow>
             (\<exists>p t. playbackDuration (schedules s ! i) = Some p \<and> trackDuration (schedules s ! i) = Some t
                    \<and> p \<noteq> 0 \<and> t \<noteq> 0 \<and> p < t))
        \<and> ((\<exists>a b. m = MonitorTrackEnd a b) \<longleftrightarrow>
             \<not> (\<exists>p t. playbackDuration (schedules s ! i) = Some p \<and> trackDuration (schedules s ! i) = Some t
                    \<and> p \<noteq> 0 \<and> t \<noteq> 0 \<and> p < t)
             \<and> restorePlayback (schedules s ! i) \<and> getPlaybackState (env_state env) \<noteq> None)
        \<and> ((\<exists>a. m = MonitorForCompletion a) \<longleftrightarrow>
             \<not> (\<exists>p t. playbackDuration (schedules s ! i) = Some p \<and> trackDuration (schedules s ! i) = Some t
                    \<and> p \<noteq> 0 \<and> t \<noteq> 0 \<and> p < t)
             \<and> \<not> (restorePlayback (schedules s ! i) \<and> getPlaybackState (env_state env) \<noteq> None)))"
  by (auto simp add: triggerSchedule_def Let_def select_monitor_def duration_capped_def
        truthy_num_def split: option.splits)


theorem triggerSchedule_selects_monitor_witness:
  "env_volume all_fine = Returned () \<and> env_play all_fine = Returned ()
   \<and> (\<exists>a b. the (snd (snd (triggerSchedule 0 all_fine (store_of [wake_up]))))
              = MonitorPlaybackDuration a b)"
  using triggerSchedule_selects_monitor [of all_fine "()" "()" 0 "store_of [wake_up]"]
  by (auto simp add: all_fine_def store_of_def wake_up_def)

text \<open>
  As C3 is written, \<open>restorePlayback\<close> without a cap selects the natural-end monitor. With
  no active device the snapshot is \<open>null\<close>, and the fire-and-forget monitor is started.
\<close>

theorem natural_end_needs_snapshot_counterexample:
  "env_volume no_device = Returned () \<and> env_play no_device = Returned ()
   \<and> restorePlayback (schedules (store_of [full_track]) ! 0)
   \<and> playbackDuration (schedules (store_of [full_track]) ! 0) = None
   \<and> snd (snd (triggerSchedule 0 no_device (store_of [full_track])))
       = Some (MonitorForCompletion
                (full_track\<lparr>triggered := True, lastTriggeredDate := Some ''Tue Nov 03 2026''\<rparr>))"
  by (simp add: triggerSchedule_def Let_def select_monitor_def duration_capped_def
        truthy_num_def no_device_def all_fine_def store_of_def full_track_def wake_up_def
        getPlaybackState_def)

section \<open>Firing by hand\<close>

lemma findIndex_Some:
  "findIndex P xs = Some i \<Longrightarrow> i < length xs \<and> P (xs ! i) \<and> (\<forall>j<i. \<not> P (xs ! j))"
proof (induction xs arbitrary: i)
  case Nil
  then show ?case by simp
next
  case (Cons x xs)
  show ?case
  proof (cases "P x")
    case True
    with Cons.prems show ?thesis by simp
  next
    case False
    with Cons.prems obtain k where k: "findIndex P xs = Some k" "i = Suc k"
      by auto
    from Cons.IH [OF k(1)] False k(2) show ?thesis
      by (auto simp add: less_Suc_eq_0_disj)
  qed
qed

lemma findIndex_None: "findIndex P xs = None \<longleftrightarrow> (\<forall>x\<in>set xs. \<not> P x)"
  by (induction xs) auto

lemma triggerSchedule_success:
  "env_volume env = Returned u \<Longrightarrow> env_play env = Returned v \<Longrightarrow>
   schedules (fst (triggerSchedule i env s))
     = (schedules s)[i := (schedules s ! i)\<lparr>triggered := True,
                                              lastTriggeredDate := Some (env_today env)\<rparr>]"
  by (simp add: triggerSchedule_def Let_def saveSchedules_def)

lemma triggerSchedule_requests:
  "env_volume env = Returned u \<Longrightarrow> env_play env = Returned v \<Longrightarrow>
   requests (fst (snd (triggerSchedule i env s)))
     = (if restorePlayback (schedules s ! i) then [GetPlayer] else [])
       @ [PutPause, PutVolume (min 100 (max 0 (volume (schedules s ! i)))),
          PutPlay \<lparr>body_context_uri = None, body_uris = Some [trackUri (schedules s ! i)],
                   body_position_ms = None\<rparr>]"
  by (simp add: triggerSchedule_def Let_def requests_append pause_def setVolume_def play_def
        truthy_str_def)

text \<open>
  C10. For an id of the store, \<open>triggerNow\<close> takes the first schedule with that id, sets
  its \<open>triggered\<close> to false and fires it, whatever the clock, its \<open>enabled\<close> and its
  \<open>triggered\<close> were. When the volume and play requests succeed, the requests issued are
  the state request (if \<open>restorePlayback\<close>), pause, volume and play of the track, the
  schedule ends with \<open>triggered\<close> true and \<open>lastTriggeredDate\<close> today, and no later tick
  on that state fires it. For an id that is not in the store nothing changes and nothing
  is issued.
\<close>

theorem triggerNow_fires_regardless:
  "(scheduleId \<in> sid ` set (schedules s) \<longrightarrow>
      (\<exists>i. i < length (schedules s) \<and> sid (schedules s ! i) = scheduleId
         \<and> triggerNow scheduleId env s
             = triggerSchedule i env
                 (s\<lparr>schedules := (schedules s)[i := (schedules s ! i)\<lparr>triggered := False\<rparr>]\<rparr>)
         \<and> (env_volume env = Returned () \<and> env_play env = Returned () \<longrightarrow>
              schedules (fst (triggerNow scheduleId env s))
                = (schedules s)[i := (schedules s ! i)\<lparr>triggered := True,
                                     lastTriggeredDate := Some (env_today env)\<rparr>]
              \<and> requests (fst (snd (triggerNow scheduleId env s)))
                  = (if restorePlayback (schedules s ! i) then [GetPlayer] else [])
                    @ [PutPause, PutVolume (min 100 (max 0 (volume (schedules s ! i)))),
                       PutPlay \<lparr>body_context_uri = None,
                                body_uris = Some [trackUri (schedules s ! i)],
                                body_position_ms = None\<rparr>]
              \<and> (\<forall>now envs. i \<notin> fst ` set (tick_fired
                     (checkSchedules now envs (fst (triggerNow scheduleId env s))))))))
   \<and> (scheduleId \<notin> sid ` set (schedules s) \<longrightarrow> triggerNow scheduleId env s = (s, [], None))"
proof (intro conjI impI)
  assume "scheduleId \<notin> sid ` set (schedules s)"
  then have "findIndex (\<lambda>x. sid x = scheduleId) (schedules s) = None"
    by (auto simp add: findIndex_None)
  then show "triggerNow scheduleId env s = (s, [], None)"
    by (simp add: triggerNow_def)
next
  assume "scheduleId \<in> sid ` set (schedules s)"
  then have "findIndex (\<lambda>x. sid x = scheduleId) (schedules s) \<noteq> None"
    by (auto simp add: findIndex_None)
  then obtain i where i: "findIndex (\<lambda>x. sid x = scheduleId) (schedules s) = Some i"
    by auto
  from findIndex_Some [OF i] have len: "i < length (schedules s)"
    and same: "sid (schedules s ! i) = scheduleId" by simp_all
  let ?s0 = "s\<lparr>schedules := (schedules s)[i := (schedules s ! i)\<lparr>triggered := False\<rparr>]\<rparr>"
  have run: "triggerNow scheduleId env s = triggerSchedule i env ?s0"
    using i by (simp add: triggerNow_def)
  have ok: "env_volume env = Returned () \<and> env_play env = Returned () \<longrightarrow>
              schedules (fst (triggerNow scheduleId env s))
                = (schedules s)[i := (schedules s ! i)\<lparr>triggered := True,
                                     lastTriggeredDate := Some (env_today env)\<rparr>]
              \<and> requests (fst (snd (triggerNow scheduleId env s)))
                  = (if restorePlayback (schedules s ! i) then [GetPlayer] else [])
                    @ [PutPause, PutVolume (min 100 (max 0 (volume (schedules s ! i)))),
                       PutPlay \<lparr>body_context_uri = None,
                                body_uris = Some [trackUri (schedules s ! i)],
                                body_position_ms = None\<rparr>]
              \<and> (\<forall>now envs. i \<notin> fst ` set (tick_fired
                     (checkSchedules now envs (fst (triggerNow scheduleId env s)))))"
  proof
    assume fine: "env_volume env = Returned () \<and> env_play env = Returned ()"
    have a: "schedules (fst (triggerNow scheduleId env s))
                = (schedules s)[i := (schedules s ! i)\<lparr>triggered := True,
                                     lastTriggeredDate := Some (env_today env)\<rparr>]"
      using fine len by (simp add: run triggerSchedule_success [of env "()" "()"])
    have b: "requests (fst (snd (triggerNow scheduleId env s)))
                  = (if restorePlayback (schedules s ! i) then [GetPlayer] else [])
                    @ [PutPause, PutVolume (min 100 (max 0 (volume (schedules s ! i)))),
                       PutPlay \<lparr>body_context_uri = None,
                                body_uris = Some [trackUri (schedules s ! i)],
                                body_position_ms = None\<rparr>]"
      using fine len by (simp add: run triggerSchedule_requests [of env "()" "()"])
    have c: "\<forall>now envs. i \<notin> fst ` set (tick_fired
                     (checkSchedules now envs (fst (triggerNow scheduleId env s))))"
      using len by (simp add: checkSchedules_fired_set a due_def)
    from a b c show "schedules (fst (triggerNow scheduleId env s))
                = (schedules s)[i := (schedules s ! i)\<lparr>triggered := True,
                                     lastTriggeredDate := Some (env_today env)\<rparr>]
              \<and> requests (fst (snd (triggerNow scheduleId env s)))
                  = (if restorePlayback (schedules s ! i) then [GetPlayer] else [])
                    @ [PutPause, PutVolume (min 100 (max 0 (volume (schedules s ! i)))),
                       PutPlay \<lparr>body_context_uri = None,
                                body_uris = Some [trackUri (schedules s ! i)],
                                body_position_ms = None\<rparr>]
              \<and> (\<forall>now envs. i \<notin> fst ` set (tick_fired
                     (checkSchedules now envs (fst (triggerNow scheduleId env s)))))"
      by blast
  qed
  from len same run ok
  show "\<exists>i. i < length (schedules s) \<and> sid (schedules s ! i) = scheduleId
         \<and> triggerNow scheduleId env s
             = triggerSchedule i env
                 (s\<lparr>schedules := (schedules s)[i := (schedules s ! i)\<lparr>triggered := False\<rparr>]\<rparr>)
         \<and> (env_volume env = Returned () \<and> env_play env = Returned () \<longrightarrow>
              schedules (fst (triggerNow scheduleId env s))
                = (schedules s)[i := (schedules s ! i)\<lparr>triggered := True,
                                     lastTriggeredDate := Some (env_today env)\<rparr>]
              \<and> requests (fst (snd (triggerNow scheduleId env s)))
                  = (if restorePlayback (schedules s ! i) then [GetPlayer] else [])
                    @ [PutPause, PutVolume (min 100 (max 0 (volume (schedules s ! i)))),
                       PutPlay \<lparr>body_context_uri = None,
                                body_uris = Some [trackUri (schedules s ! i)],
                                body_position_ms = None\<rparr>]
              \<and> (\<forall>now envs. i \<notin> fst ` set (tick_fired
                     (checkSchedules now envs (fst (triggerNow scheduleId env s))))))"
    by blast
qed


theorem triggerNow_fires_regardless_witness:
  "''1762150000000'' \<in> sid ` set (schedules (store_of [wake_up\<lparr>enabled := False, triggered := True\<rparr>]))
   \<and> env_volume all_fine = Returned () \<and> env_play all_fine = Returned ()
   \<and> schedules (fst (triggerNow ''1762150000000'' all_fine
                        (store_of [wake_up\<lparr>enabled := False, triggered := True\<rparr>])))
       = [wake_up\<lparr>enabled := False, triggered := True,
                   lastTriggeredDate := Some ''Tue Nov 03 2026''\<rparr>]
   \<and> ''42'' \<notin> sid ` set (schedules (store_of [wake_up]))
   \<and> triggerNow ''42'' all_fine (store_of [wake_up]) = (store_of [wake_up], [], None)"
  using triggerNow_fires_regardless [of "''1762150000000''"
          "store_of [wake_up\<lparr>enabled := False, triggered := True\<rparr>]" all_fine]
        triggerNow_fires_regardless [of "''42''" "store_of [wake_up]" all_fine]
  by (auto simp add: store_of_def wake_up_def all_fine_def)

section \<open>The daily reset\<close>

lemma foldl_check_one_idle:
  "\<forall>j\<in>set js. \<not> due now (schedules (tick_state r) ! j) \<Longrightarrow>
   foldl (check_one now envs) r js = r"
  by (induction js arbitrary: r) (simp_all add: check_one_def)

lemma checkSchedules_idle:
  "\<forall>x\<in>set (schedules s). triggered x \<Longrightarrow>
   tick_state (checkSchedules now envs s) = s \<and> tick_fired (checkSchedules now envs s) = []"
proof -
  assume a: "\<forall>x\<in>set (schedules s). triggered x"
  have "foldl (check_one now envs) \<lparr>tick_state = s, tick_events = [], tick_fired = []\<rparr>
          [0 ..< length (schedules s)] = \<lparr>tick_state = s, tick_events = [], tick_fired = []\<rparr>"
    by (rule foldl_check_one_idle) (use a in \<open>simp add: due_def\<close>)
  then show ?thesis by (simp add: checkSchedules_def)
qed

lemma startChecking_idle:
  "\<forall>x\<in>set (schedules s). triggered x \<Longrightarrow> startChecking ticks s = s"
  by (induction ticks arbitrary: s) (simp_all add: startChecking_def checkSchedules_idle)

lemma startChecking_Cons:
  "startChecking (tick # ticks) s
     = startChecking ticks (tick_state (checkSchedules (fst tick) (snd tick) s))"
  by (simp add: startChecking_def)

lemma monday_fire:
  "schedules (tick_state (checkSchedules (fst monday_seven) (snd monday_seven)
       (loadSchedules ''Mon Nov 02 2026'' (store_of [wake_up])))) = [fired_yesterday]"
  by (simp add: checkSchedules_def check_one_def due_def currentTime_seven monday_seven_def
        loadSchedules_def reset_if_new_day_def saveSchedules_def store_of_def wake_up_def
        fired_yesterday_def triggerSchedule_def all_fine_def Let_def)

text \<open>
  C4 at a failing input. The store holds one repeating schedule for 07:00. The scheduler is
  initialised on Monday and the tick of Monday 07:00:00 fires the schedule. Whatever ticks
  follow, on Monday, Tuesday or later, the schedule keeps \<open>triggered\<close> true with Monday as
  \<open>lastTriggeredDate\<close>, and a tick at 07:00:00 fires nothing: no tick resets the flag.
  Only \<open>loadSchedules\<close> on a later day and \<open>resetDailySchedules\<close> would reset it.
\<close>

theorem repeat_not_reset_by_ticks:
  "schedules (init ''Mon Nov 02 2026'' (monday_seven # ticks) (store_of [wake_up]))
     = [fired_yesterday]
   \<and> tick_fired (checkSchedules \<lparr>hours = 7, minutes = 0, seconds = 0\<rparr> envs
        (init ''Mon Nov 02 2026'' (monday_seven # ticks) (store_of [wake_up]))) = []
   \<and> schedules (loadSchedules ''Tue Nov 03 2026'' (store_of [fired_yesterday]))
       = [fired_yesterday\<lparr>triggered := False\<rparr>]
   \<and> schedules (resetDailySchedules (store_of [fired_yesterday]))
       = [fired_yesterday\<lparr>triggered := False\<rparr>]"
proof -
  let ?s1 = "tick_state (checkSchedules (fst monday_seven) (snd monday_seven)
       (loadSchedules ''Mon Nov 02 2026'' (store_of [wake_up])))"
  have all: "\<forall>x\<in>set (schedules ?s1). triggered x"
    by (simp add: monday_fire fired_yesterday_def)
  have idle: "init ''Mon Nov 02 2026'' (monday_seven # ticks) (store_of [wake_up]) = ?s1"
    by (simp add: init_def startChecking_Cons startChecking_idle [OF all])
  have load: "schedules (loadSchedules ''Tue Nov 03 2026'' (store_of [fired_yesterday]))
       = [fired_yesterday\<lparr>triggered := False\<rparr>]"
    by (simp add: loadSchedules_def store_of_def fired_yesterday_def wake_up_def
          reset_if_new_day_def saveSchedules_def)
  have reset: "schedules (resetDailySchedules (store_of [fired_yesterday]))
       = [fired_yesterday\<lparr>triggered := False\<rparr>]"
    by (simp add: resetDailySchedules_def store_of_def fired_yesterday_def wake_up_def
          saveSchedules_def)
  show ?thesis
    using checkSchedules_idle [OF all] load reset monday_fire
    by (simp add: idle)
qed

theorem repeat_not_reset_by_ticks_witness:
  "schedules (init ''Mon Nov 02 2026'' [monday_seven, tuesday_seven] (store_of [wake_up]))
     = [fired_yesterday]
   \<and> tick_fired (checkSchedules \<lparr>hours = 7, minutes = 0, seconds = 0\<rparr> (snd tuesday_seven)
        (init ''Mon Nov 02 2026'' [monday_seven, tuesday_seven] (store_of [wake_up]))) = []"
  using repeat_not_reset_by_ticks [of "[tuesday_seven]" "snd tuesday_seven"]
  by simp

section \<open>The play command of a restore\<close>

lemma play_requests_append: "play_requests (xs @ ys) = play_requests xs @ play_requests ys"
  by (induction xs rule: play_requests.induct) simp_all

lemma play_requests_volume:
  "play_requests (case restore_volume prevState of None \<Rightarrow> [] | Some q \<Rightarrow> [Api q]) = []"
  by (simp add: restore_volume_def setVolume_def split: js_number.splits)

lemma play_requests_restore_volume:
  "restore_volume prevState = Some q \<Longrightarrow> play_requests (Api q # evs) = play_requests evs"
  by (auto simp add: restore_volume_def setVolume_def split: js_number.splits)

lemma restore_plays:
  "restore_volume prevState = None \<or> vol_r = Returned () \<Longrightarrow>
   play_requests (restorePreviousPlayback prevState vol_r play_r)
     = (case restore_play prevState of None \<Rightarrow> [] | Some (PutPlay b) \<Rightarrow> [b] | Some q \<Rightarrow> [])"
  by (auto simp add: restorePreviousPlayback_def Let_def play_requests_append play_requests_volume
        play_requests_restore_volume restore_failed_def restore_play_def play_def
        split: option.splits outcome.splits request.splits)

lemma restore_no_play:
  "restore_play prevState = None \<Longrightarrow>
   play_requests (restorePreviousPlayback prevState vol_r play_r) = []"
  by (auto simp add: restorePreviousPlayback_def Let_def play_requests_append play_requests_volume
        play_requests_restore_volume restore_failed_def
        split: option.splits outcome.splits request.splits)

lemma requests_restore:
  "requests (restorePreviousPlayback prevState vol_r play_r)
     = (case device_volume_percent prevState of
          Undefined \<Rightarrow> [] | Null \<Rightarrow> [PutVolume 0] | Num n \<Rightarrow> [PutVolume (min 100 (max 0 n))])
       @ map PutPlay (play_requests (restorePreviousPlayback prevState vol_r play_r))"
  by (auto simp add: restorePreviousPlayback_def Let_def restore_volume_def restore_play_def
        restore_failed_def setVolume_def play_def
        split: js_number.splits outcome.splits option.splits)

lemma restore_volume_failed:
  "device_volume_percent prevState \<noteq> Undefined \<Longrightarrow> vol_r = Threw m \<Longrightarrow>
   play_requests (restorePreviousPlayback prevState vol_r play_r) = []
   \<and> last (restorePreviousPlayback prevState vol_r play_r)
       = Toast ''Could not restore previous playback'' True
   \<and> Toast ''Restored previous playback'' False
       \<notin> set (restorePreviousPlayback prevState vol_r play_r)"
  by (auto simp add: restorePreviousPlayback_def Let_def restore_volume_def
        restore_failed_def setVolume_def
        split: js_number.splits)

text \<open>
  C6, as the code has it. The restore first sends the volume of the snapshot, if it has
  one: its requests are that volume request (clamped; 0 for a \<open>null\<close> volume) followed by
  its play requests. When the snapshot has no device volume, or the volume request
  succeeds: with a context URI the restore issues exactly one play request, with that
  context URI and the progress of the snapshot (0 when it has none); with a track URI
  and no context URI, exactly one play request with that single track URI and the same
  position. With neither it issues no play request, in any case. When the snapshot has a
  device volume and the volume request fails, no play request is issued, the restore ends
  with the error notification and does not show the success notification.
\<close>

theorem restorePreviousPlayback_play_command:
  "(device_volume_percent prevState = Undefined \<or> vol_r = Returned () \<longrightarrow>
      (\<forall>c. context_uri prevState = Some c \<and> c \<noteq> [] \<longrightarrow>
         play_requests (restorePreviousPlayback prevState vol_r play_r)
           = [\<lparr>body_context_uri = Some c, body_uris = None,
               body_position_ms = Some (case progress_ms prevState of None \<Rightarrow> 0 | Some p \<Rightarrow> p)\<rparr>])
      \<and> (\<forall>t. (context_uri prevState = None \<or> context_uri prevState = Some [])
              \<and> item prevState = Some t \<and> uri t \<noteq> [] \<longrightarrow>
         play_requests (restorePreviousPlayback prevState vol_r play_r)
           = [\<lparr>body_context_uri = None, body_uris = Some [uri t],
               body_position_ms = Some (case progress_ms prevState of None \<Rightarrow> 0 | Some p \<Rightarrow> p)\<rparr>]))
   \<and> ((context_uri prevState = None \<or> context_uri prevState = Some [])
        \<and> (item prevState = None \<or> map_option uri (item prevState) = Some []) \<longrightarrow>
        play_requests (restorePreviousPlayback prevState vol_r play_r) = [])
   \<and> requests (restorePreviousPlayback prevState vol_r play_r)
       = (case device_volume_percent prevState of
            Undefined \<Rightarrow> [] | Null \<Rightarrow> [PutVolume 0] | Num n \<Rightarrow> [PutVolume (min 100 (max 0 n))])
         @ map PutPlay (play_requests (restorePreviousPlayback prevState vol_r play_r))
   \<and> (device_volume_percent prevState \<noteq> Undefined \<and> (\<exists>m. vol_r = Threw m) \<longrightarrow>
        play_requests (restorePreviousPlayback prevState vol_r play_r) = []
        \<and> last (restorePreviousPlayback prevState vol_r play_r)
            = Toast ''Could not restore previous playback'' True
        \<and> Toast ''Restored previous playback'' False
            \<notin> set (restorePreviousPlayback prevState vol_r play_r))"
proof (intro conjI impI allI)
  fix c
  assume v: "device_volume_percent prevState = Undefined \<or> vol_r = Returned ()"
    and c: "context_uri prevState = Some c \<and> c \<noteq> []"
  from v have "restore_volume prevState = None \<or> vol_r = Returned ()"
    by (auto simp add: restore_volume_def)
  from restore_plays [OF this] c
  show "play_requests (restorePreviousPlayback prevState vol_r play_r)
           = [\<lparr>body_context_uri = Some c, body_uris = None,
               body_position_ms = Some (case progress_ms prevState of None \<Rightarrow> 0 | Some p \<Rightarrow> p)\<rparr>]"
    by (simp add: restore_play_def play_def truthy_str_def or_num_def truthy_num_def
          split: option.splits)
next
  fix t
  assume v: "device_volume_percent prevState = Undefined \<or> vol_r = Returned ()"
    and t: "(context_uri prevState = None \<or> context_uri prevState = Some [])
              \<and> item prevState = Some t \<and> uri t \<noteq> []"
  from v have "restore_volume prevState = None \<or> vol_r = Returned ()"
    by (auto simp add: restore_volume_def)
  from restore_plays [OF this] t
  show "play_requests (restorePreviousPlayback prevState vol_r play_r)
           = [\<lparr>body_context_uri = None, body_uris = Some [uri t],
               body_position_ms = Some (case progress_ms prevState of None \<Rightarrow> 0 | Some p \<Rightarrow> p)\<rparr>]"
    by (auto simp add: restore_play_def play_def truthy_str_def or_num_def truthy_num_def
          split: option.splits)
next
  assume n: "(context_uri prevState = None \<or> context_uri prevState = Some [])
        \<and> (item prevState = None \<or> map_option uri (item prevState) = Some [])"
  then have "restore_play prevState = None"
    by (auto simp add: restore_play_def truthy_str_def)
  then show "play_requests (restorePreviousPlayback prevState vol_r play_r) = []"
    by (rule restore_no_play)
next
  show "requests (restorePreviousPlayback prevState vol_r play_r)
       = (case device_volume_percent prevState of
            Undefined \<Rightarrow> [] | Null \<Rightarrow> [PutVolume 0] | Num n \<Rightarrow> [PutVolume (min 100 (max 0 n))])
         @ map PutPlay (play_requests (restorePreviousPlayback prevState vol_r play_r))"
    by (rule requests_restore)
next
  assume f: "device_volume_percent prevState \<noteq> Undefined \<and> (\<exists>m. vol_r = Threw m)"
  then obtain m where "vol_r = Threw m" by blast
  with f restore_volume_failed [of prevState vol_r m play_r]
  show "play_requests (restorePreviousPlayback prevState vol_r play_r) = []"
    and "last (restorePreviousPlayback prevState vol_r play_r)
            = Toast ''Could not restore previous playback'' True"
    and "Toast ''Restored previous playback'' False
            \<notin> set (restorePreviousPlayback prevState vol_r play_r)"
    by simp_all
qed

theorem restorePreviousPlayback_play_command_witness:
  "play_requests (restorePreviousPlayback (playing ''spotify:track:T0'') (Returned ()) (Returned ()))
     = [\<lparr>body_context_uri = Some ''spotify:playlist:P1'', body_uris = None,
         body_position_ms = Some 5000\<rparr>]
   \<and> requests (restorePreviousPlayback (playing ''spotify:track:T0'') (Returned ()) (Returned ()))
     = [PutVolume 40,
        PutPlay \<lparr>body_context_uri = Some ''spotify:playlist:P1'', body_uris = None,
                 body_position_ms = Some 5000\<rparr>]
   \<and> device_volume_percent track_only = Undefined
   \<and> play_requests (restorePreviousPlayback track_only (Threw ''unused'') (Threw ''Forbidden''))
     = [\<lparr>body_context_uri = None, body_uris = Some [''spotify:track:T0''],
         body_position_ms = Some 5000\<rparr>]
   \<and> context_uri idle_player = None \<and> item idle_player = None
   \<and> play_requests (restorePreviousPlayback idle_player (Returned ()) (Returned ())) = []
   \<and> device_volume_percent (playing ''spotify:track:T0'') = Num 40
   \<and> play_requests (restorePreviousPlayback (playing ''spotify:track:T0'')
                       (Threw ''Device not found'') (Returned ())) = []
   \<and> last (restorePreviousPlayback (playing ''spotify:track:T0'')
              (Threw ''Device not found'') (Returned ()))
       = Toast ''Could not restore previous playback'' True"
  using restorePreviousPlayback_play_command
          [of "playing ''spotify:track:T0''" "Returned ()" "Returned ()"]
        restorePreviousPlayback_play_command [of track_only "Threw ''unused''" "Threw ''Forbidden''"]
        restorePreviousPlayback_play_command [of idle_player "Returned ()" "Returned ()"]
        restorePreviousPlayback_play_command
          [of "playing ''spotify:track:T0''" "Threw ''Device not found''" "Returned ()"]
  by (simp add: playing_def track_only_def idle_player_def)

text \<open>
  As C6 is written, a snapshot with a context URI always leads to a play request. When the
  volume request fails, the restore ends in its \<open>catch\<close> block before it plays.
\<close>

theorem restore_volume_failure_counterexample:
  "context_uri (playing ''spotify:track:T0'') = Some ''spotify:playlist:P1''
   \<and> requests (restorePreviousPlayback (playing ''spotify:track:T0'')
                 (Threw ''Player command failed: Restriction violated'') (Returned ()))
       = [PutVolume 40]"
  by (simp add: restorePreviousPlayback_def restore_volume_def restore_play_def restore_failed_def
        setVolume_def playing_def Let_def)

section \<open>Adding a schedule\<close>

text \<open>
  C7, as the code has it. After \<open>addSchedule\<close>, \<open>getSchedules\<close> gives the former list
  followed by the new schedule, which has the creation time as id, the time and the track
  URI supplied, \<open>triggered\<close> false and \<open>enabled\<close> true. A supplied name is kept unless it is
  empty, a supplied duration unless it is 0, a supplied volume other than 0 is kept; an
  absent or empty name becomes the default name, an absent or zero duration \<open>null\<close>, an
  absent volume 50; \<open>restorePlayback\<close> is false unless true was supplied and \<open>repeat\<close> is
  true unless false was supplied.
\<close>

theorem addSchedule_then_getSchedules:
  "getSchedules (snd (addSchedule now_ms f s)) = getSchedules s @ [fst (addSchedule now_ms f s)]
   \<and> sid (fst (addSchedule now_ms f s)) = toString now_ms
   \<and> time (fst (addSchedule now_ms f s)) = f_time f
   \<and> trackUri (fst (addSchedule now_ms f s)) = f_trackUri f
   \<and> triggered (fst (addSchedule now_ms f s)) = False
   \<and> enabled (fst (addSchedule now_ms f s)) = True
   \<and> lastTriggeredDate (fst (addSchedule now_ms f s)) = None
   \<and> trackName (fst (addSchedule now_ms f s))
       = (case f_trackName f of None \<Rightarrow> ''Unknown Track''
          | Some n \<Rightarrow> if n = [] then ''Unknown Track'' else n)
   \<and> artistName (fst (addSchedule now_ms f s))
       = (case f_artistName f of None \<Rightarrow> ''Unknown Artist''
          | Some n \<Rightarrow> if n = [] then ''Unknown Artist'' else n)
   \<and> (f_volume f = None \<longrightarrow> volume (fst (addSchedule now_ms f s)) = 50)
   \<and> (\<forall>v. f_volume f = Some v \<and> v \<noteq> 0 \<longrightarrow> volume (fst (addSchedule now_ms f s)) = v)
   \<and> restorePlayback (fst (addSchedule now_ms f s)) = (f_restorePlayback f = Some True)
   \<and> repeat (fst (addSchedule now_ms f s)) = (f_repeat f \<noteq> Some False)
   \<and> playbackDuration (fst (addSchedule now_ms f s))
       = (case f_playbackDuration f of None \<Rightarrow> None
          | Some d \<Rightarrow> if d = 0 then None else Some d)
   \<and> trackDuration (fst (addSchedule now_ms f s))
       = (case f_trackDuration f of None \<Rightarrow> None
          | Some d \<Rightarrow> if d = 0 then None else Some d)"
  by (auto simp add: addSchedule_def getSchedules_def saveSchedules_def new_schedule_def Let_def
        or_str_def or_num_def or_null_def or_false_def truthy_str_def truthy_num_def
        split: option.splits)

theorem addSchedule_then_getSchedules_witness:
  "f_volume only_required = None
   \<and> volume (fst (addSchedule 1762150000000 only_required (store_of []))) = 50
   \<and> f_volume from_form = Some 80
   \<and> volume (fst (addSchedule 1762150000000 from_form (store_of []))) = 80"
  using addSchedule_then_getSchedules [of 1762150000000 only_required "store_of []"]
        addSchedule_then_getSchedules [of 1762150000000 from_form "store_of []"]
  by (simp add: only_required_def from_form_def)

text \<open>
  As C7 is written, every supplied value is stored unchanged. A playback duration of 0,
  which the form can supply, is stored as \<open>null\<close>.
\<close>

theorem zero_duration_not_kept_counterexample:
  "f_playbackDuration from_form = Some 0
   \<and> length (getSchedules (snd (addSchedule 1762150000000 from_form (store_of [])))) = 1
   \<and> playbackDuration (getSchedules (snd (addSchedule 1762150000000 from_form (store_of []))) ! 0)
       = None"
  by (simp add: addSchedule_def getSchedules_def saveSchedules_def new_schedule_def Let_def
        or_null_def truthy_num_def from_form_def store_of_def)

text \<open>A supplied volume of 0 is not kept either: \<open>0 || 50\<close> is 50.\<close>

lemma addSchedule_volume_zero:
  "volume (fst (addSchedule 1762150000000 muted (store_of []))) = 50"
  by (simp add: addSchedule_def new_schedule_def Let_def or_num_def truthy_num_def muted_def
        only_required_def)

lemma toString_example: "toString 1762150000000 = ''1762150000000''"
  by (simp add: toString.simps digit_char_def)

section \<open>The range of the volume\<close>

lemma volumes_update_same:
  "volumes_in_range xs \<Longrightarrow> volume y = volume (xs ! i) \<Longrightarrow> volumes_in_range (xs[i := y])"
proof -
  assume inv: "volumes_in_range xs" and same: "volume y = volume (xs ! i)"
  have "0 \<le> volume (xs[i := y] ! n) \<and> volume (xs[i := y] ! n) \<le> 100"
    if "n < length xs" for n
  proof (cases "n = i")
    case True
    with that inv same show ?thesis
      by (simp add: volumes_in_range_def list_all_length)
  next
    case False
    with that inv show ?thesis
      by (simp add: volumes_in_range_def list_all_length)
  qed
  then show ?thesis
    by (simp add: volumes_in_range_def list_all_length)
qed

lemma triggerSchedule_volumes:
  "volumes_in_range (schedules s) \<Longrightarrow> volumes_in_range (schedules (fst (triggerSchedule i env s)))"
  by (auto simp add: triggerSchedule_def trigger_failed_def saveSchedules_def Let_def
        intro!: volumes_update_same split: outcome.splits)

lemma check_one_volumes:
  "volumes_in_range (schedules (tick_state r)) \<Longrightarrow>
   volumes_in_range (schedules (tick_state (check_one now envs r i)))"
  using triggerSchedule_volumes [of "tick_state r" i "envs i"]
  by (auto simp add: check_one_def split: prod.splits)

lemma foldl_check_one_volumes:
  "volumes_in_range (schedules (tick_state r)) \<Longrightarrow>
   volumes_in_range (schedules (tick_state (foldl (check_one now envs) r js)))"
  by (induction js arbitrary: r) (simp_all add: check_one_volumes)

lemma checkSchedules_volumes:
  "volumes_in_range (schedules s) \<Longrightarrow>
   volumes_in_range (schedules (tick_state (checkSchedules now envs s)))"
  by (simp add: checkSchedules_def foldl_check_one_volumes)

lemma toggleSchedule_volumes:
  "volumes_in_range (schedules s) \<Longrightarrow> volumes_in_range (schedules (toggleSchedule k s))"
  by (auto simp add: toggleSchedule_def saveSchedules_def intro!: volumes_update_same
        split: option.splits)

lemma triggerNow_volumes:
  "volumes_in_range (schedules s) \<Longrightarrow> volumes_in_range (schedules (fst (triggerNow k env s)))"
  by (auto simp add: triggerNow_def intro!: triggerSchedule_volumes volumes_update_same
        split: option.splits)

lemma removeSchedule_volumes:
  "volumes_in_range (schedules s) \<Longrightarrow> volumes_in_range (schedules (removeSchedule k s))"
  by (auto simp add: removeSchedule_def saveSchedules_def volumes_in_range_def list_all_iff)

lemma resetDailySchedules_volumes:
  "volumes_in_range (schedules s) \<Longrightarrow> volumes_in_range (schedules (resetDailySchedules s))"
  by (auto simp add: resetDailySchedules_def saveSchedules_def volumes_in_range_def list_all_iff)

lemma loadSchedules_volumes:
  "volumes_in_range (schedules s) \<Longrightarrow> (\<forall>xs. storage s = Saved xs \<longrightarrow> volumes_in_range xs) \<Longrightarrow>
   volumes_in_range (schedules (loadSchedules today s))"
  by (auto simp add: loadSchedules_def saveSchedules_def volumes_in_range_def list_all_iff
        reset_if_new_day_def split: storage_item.splits)

lemma addSchedule_volumes:
  "volumes_in_range (schedules s) \<Longrightarrow>
   f_volume f = None \<or> (\<exists>v. f_volume f = Some v \<and> 0 \<le> v \<and> v \<le> 100) \<Longrightarrow>
   volumes_in_range (schedules (snd (addSchedule now_ms f s)))"
  by (auto simp add: addSchedule_def saveSchedules_def new_schedule_def Let_def
        volumes_in_range_def or_num_def truthy_num_def)

text \<open>
  C9, as the code has it. The clamp is in \<open>setVolume\<close>: whatever volume it is called with,
  the request carries a volume within 0 and 100. The store does not clamp. Removing,
  toggling, resetting, firing, ticking and loading from a list that satisfies it preserve
  the invariant that every stored volume is within 0 and 100, and \<open>addSchedule\<close> preserves
  it when the supplied volume is absent or within 0 and 100.
\<close>

theorem volume_clamped_when_sent:
  "(\<exists>n. setVolume v = PutVolume n \<and> 0 \<le> n \<and> n \<le> 100)
   \<and> (volumes_in_range (schedules s) \<longrightarrow>
        volumes_in_range (schedules (removeSchedule k s))
        \<and> volumes_in_range (schedules (toggleSchedule k s))
        \<and> volumes_in_range (schedules (resetDailySchedules s))
        \<and> volumes_in_range (schedules (fst (triggerSchedule i env s)))
        \<and> volumes_in_range (schedules (fst (triggerNow k env s)))
        \<and> volumes_in_range (schedules (tick_state (checkSchedules now envs s)))
        \<and> ((\<forall>xs. storage s = Saved xs \<longrightarrow> volumes_in_range xs) \<longrightarrow>
             volumes_in_range (schedules (loadSchedules today s)))
        \<and> (f_volume f = None \<or> (\<exists>w. f_volume f = Some w \<and> 0 \<le> w \<and> w \<le> 100) \<longrightarrow>
             volumes_in_range (schedules (snd (addSchedule now_ms f s)))))"
  by (simp add: setVolume_def removeSchedule_volumes toggleSchedule_volumes
        resetDailySchedules_volumes triggerSchedule_volumes triggerNow_volumes
        checkSchedules_volumes loadSchedules_volumes addSchedule_volumes)

theorem volume_clamped_when_sent_witness:
  "volumes_in_range (schedules (store_of [wake_up]))
   \<and> storage (store_of [wake_up]) = Saved [wake_up] \<and> volumes_in_range [wake_up]
   \<and> f_volume from_form = Some 80
   \<and> setVolume 150 = PutVolume 100
   \<and> volumes_in_range (schedules (loadSchedules ''Tue Nov 03 2026'' (store_of [wake_up])))
   \<and> volumes_in_range
        (schedules (snd (addSchedule 1762150000000 from_form (store_of [wake_up]))))"
  using volume_clamped_when_sent [of 150 "store_of [wake_up]" "''1762150000000''" 0 all_fine
          "\<lparr>hours = 7, minutes = 0, seconds = 0\<rparr>" "\<lambda>i. all_fine" "''Tue Nov 03 2026''"
          from_form 1762150000000]
  by (simp add: store_of_def wake_up_def from_form_def volumes_in_range_def setVolume_def)

text \<open>
  As C9 is written, volumes are clamped when written to the store. \<open>addSchedule\<close> stores
  a supplied volume of 150 as it is.
\<close>

theorem addSchedule_does_not_clamp_counterexample:
  "volumes_in_range (schedules (store_of []))
   \<and> volume (schedules (snd (addSchedule 1762150000000 too_loud (store_of []))) ! 0) = 150"
  by (simp add: addSchedule_def saveSchedules_def new_schedule_def Let_def or_num_def
        truthy_num_def too_loud_def only_required_def store_of_def volumes_in_range_def)

section \<open>A track change during a monitor\<close>









section \<open>Errors during a poll\<close>


















end
